theory Spec2Isabelle
  imports Main
begin

section \<open>JavaScript values\<close>

text \<open>
  The values that flow through \<^verbatim>\<open>index.js\<close>: the development flag, what a function matcher
  returns, the literals of an include or exclude list, the parsed manifest and its entries.
  Numbers are integers here (no NaN, no fractions); functions and regular expressions are
  not values of this type, they are matchers (below).
\<close>

datatype js =
    JUndefined
  | JNull
  | JBoolean bool
  | JNumber int
  | JString string
  | JObject "(string \<times> js) list"

text \<open>What \<^verbatim>\<open>if (v)\<close> tests.\<close>

fun truthy :: "js \<Rightarrow> bool" where
  "truthy JUndefined = False"
| "truthy JNull = False"
| "truthy (JBoolean b) = b"
| "truthy (JNumber n) = (n \<noteq> 0)"
| "truthy (JString s) = (s \<noteq> [])"
| "truthy (JObject kvs) = True"

text \<open>
  Modelled from the spec: the helper \<^verbatim>\<open>exists\<close> of \<^verbatim>\<open>./helpers\<close> is not among the
  sources. The spec reads \<^verbatim>\<open>!exists(x)\<close> as "x is absent" (no include list, key absent
  from the manifest), that is, \<^verbatim>\<open>x\<close> is \<^verbatim>\<open>undefined\<close>.
\<close>

definition exists :: "js \<Rightarrow> bool" where
  "exists what = (what \<noteq> JUndefined)"

datatype error =
    Refresh_in_production
  | Project_path_missing
  | Missing_path
  | Cannot_find_module string
  | Load_failed string
  | TypeError

text \<open>
  Property access \<^verbatim>\<open>v[k]\<close>: a TypeError on \<^verbatim>\<open>undefined\<close> and \<^verbatim>\<open>null\<close>, the own
  property of an object or \<^verbatim>\<open>undefined\<close>; properties inherited from a prototype are not
  modelled, so a primitive has none.
\<close>

fun get :: "js \<Rightarrow> string \<Rightarrow> error + js" where
  "get JUndefined k = Inl TypeError"
| "get JNull k = Inl TypeError"
| "get (JObject kvs) k = Inr (case map_of kvs k of None \<Rightarrow> JUndefined | Some v \<Rightarrow> v)"
| "get v k = Inr JUndefined"

text \<open>
  A value that may be \<^verbatim>\<open>undefined\<close> used as a string, in a template string or as a
  property key: \<^verbatim>\<open>this.webpack_assets_path\<close> before \<^verbatim>\<open>server()\<close> has set it.
\<close>

fun to_string :: "string option \<Rightarrow> string" where
  "to_string None = ''undefined''"
| "to_string (Some p) = p"

section \<open>Asset descriptions and matchers\<close>

text \<open>
  An entry of an include or exclude list is a regular expression (given by its
  \<^verbatim>\<open>test\<close>), a function (given by what it returns), or any other value, compared with
  \<^verbatim>\<open>===\<close>. A regular expression is taken without the \<^verbatim>\<open>g\<close> and \<^verbatim>\<open>y\<close> flags, so that
  \<^verbatim>\<open>test\<close> depends on the path only.
\<close>

datatype matcher =
    RegExp "string \<Rightarrow> bool"
  | Function "string \<Rightarrow> js"
  | Other js

text \<open>
  \<^verbatim>\<open>include\<close> and \<^verbatim>\<open>exclude\<close> are optional properties: \<open>None\<close> is a description that
  does not specify the property.
\<close>

record description =
  extensions :: "string list"
  include_list :: "matcher list option"
  exclude_list :: "matcher list option"

text \<open>
  The body of the loops of \<^verbatim>\<open>excludes\<close> and \<^verbatim>\<open>includes\<close>: the three-way test on one
  entry.
\<close>

fun matches :: "matcher \<Rightarrow> string \<Rightarrow> bool" where
  "matches (RegExp test) path = test path"
| "matches (Function f) path = truthy (f path)"
| "matches (Other v) path = (v = JString path)"

fun excludes_loop :: "string \<Rightarrow> matcher list \<Rightarrow> bool" where
  "excludes_loop path [] = False"
| "excludes_loop path (exclude # rest) =
     (if matches exclude path then True else excludes_loop path rest)"

definition excludes :: "string \<Rightarrow> description \<Rightarrow> bool" where
  "excludes path options =
     (case exclude_list options of
        None \<Rightarrow> False
      | Some list \<Rightarrow> excludes_loop path list)"

fun includes_loop :: "string \<Rightarrow> matcher list \<Rightarrow> bool" where
  "includes_loop path [] = False"
| "includes_loop path (include # rest) =
     (if matches include path then True else includes_loop path rest)"

definition includes_path :: "string \<Rightarrow> description \<Rightarrow> bool" where
  "includes_path path options =
     (case include_list options of
        None \<Rightarrow> True
      | Some list \<Rightarrow> includes_loop path list)"

section \<open>The instance and its host\<close>

datatype level = Log_debug | Log_info | Log_error

text \<open>
  The closure a mounted hook runs: the one \<^verbatim>\<open>register_extension\<close> builds from an
  extension and a description, or the one \<^verbatim>\<open>enable_aliasing\<close> mounts under an id.
\<close>

datatype resolver =
    Extension_resolver string description
  | Global_resolver string

text \<open>
  The fields of an instance (\<^verbatim>\<open>this.options.*\<close>, \<^verbatim>\<open>this.webpack_assets_path\<close>,
  \<^verbatim>\<open>this.hooks\<close>, \<^verbatim>\<open>this.alias_hook\<close>, \<^verbatim>\<open>this.cached_assets\<close>, the calls made on
  \<^verbatim>\<open>this.log\<close>), followed by what it reads and writes in its Node.js process:
  \<^verbatim>\<open>require.cache\<close> (path to exports), the files \<^verbatim>\<open>fs.existsSync\<close> and
  \<^verbatim>\<open>require\<close> see (path to parsed contents), and the hooks mounted in require-hacker.
  A hook handle is a number.
\<close>

record state =
  options_development :: js
  options_project_path :: "string option"
  options_webpack_assets_file_path :: string
  options_assets :: "(string \<times> description) list"
  options_alias :: "(string \<times> string) list option"
  webpack_assets_path :: "string option"
  hooks :: "nat list"
  alias_hook :: "nat option"
  cached_assets :: "string list"
  log :: "(level \<times> string) list"
  require_cache :: "string \<rightharpoonup> js"
  files :: "string \<rightharpoonup> js"
  mounted :: "(nat \<times> resolver) list"
  next_handle :: nat

text \<open>
  Functions the class imports whose code is not among the sources; they are parameters
  of the model: \<^verbatim>\<open>normalize_asset_path\<close>, \<^verbatim>\<open>webpack_path\<close> and \<^verbatim>\<open>alias_hook\<close> of
  \<^verbatim>\<open>./common\<close>, and \<^verbatim>\<open>path.resolve\<close> of Node.js. The alias hook gets the path, the project
  path and the aliases, and yields its result with the lines it logs.
\<close>

record deps =
  normalize_asset_path :: "string \<Rightarrow> string \<Rightarrow> string"
  webpack_path :: "string \<Rightarrow> string"
  path_resolve :: "string \<Rightarrow> string \<Rightarrow> string"
  common_alias_hook ::
    "string \<Rightarrow> string option \<Rightarrow> (string \<times> string) list option
      \<Rightarrow> string option \<times> (level \<times> string) list"

definition log_call :: "level \<Rightarrow> string \<Rightarrow> state \<Rightarrow> state" where
  "log_call l message s = s\<lparr>log := log s @ [(l, message)]\<rparr>"

subsection \<open>The host: Node.js and require-hacker\<close>

text \<open>
  Modelled from the spec: \<^verbatim>\<open>default_webpack_assets\<close> of \<^verbatim>\<open>./common\<close> is not among the
  sources; the spec calls its result "an empty default manifest", a manifest being a
  structure with an \<^verbatim>\<open>assets\<close> mapping.
\<close>

definition default_webpack_assets :: js where
  "default_webpack_assets = JObject [(''assets'', JObject [])]"

definition existsSync :: "string option \<Rightarrow> state \<Rightarrow> bool" where
  "existsSync path s = (case path of None \<Rightarrow> False | Some p \<Rightarrow> files s p \<noteq> None)"

text \<open>
  Node hands a file to its JSON loader when the name of the file ends in \<^verbatim>\<open>.json\<close> and
  has more to it than that extension.
\<close>

definition json_file :: "string \<Rightarrow> bool" where
  "json_file path =
     (5 < length path
      \<and> drop (length path - 5) path = ''.json''
      \<and> path ! (length path - 6) \<noteq> CHR ''/'')"

text \<open>
  Node's own \<^verbatim>\<open>require(this.webpack_assets_path)\<close>, as \<^verbatim>\<open>assets()\<close> calls it. It
  throws when the path is \<^verbatim>\<open>undefined\<close>. The exports that \<^verbatim>\<open>require.cache\<close> has for the
  path come back as they are. Else Node looks for the file and throws when there is none.
  A file named \<^verbatim>\<open>*.json\<close> goes to the JSON loader, which gives the parsed contents and
  caches them; a hook this instance has mounted for \<^verbatim>\<open>json\<close> is asked first and declines
  this path. A file with any other name does not come back as its parsed contents: Node
  compiles it as JavaScript, a SyntaxError for the JSON text of a manifest, or asks the
  hook mounted for its extension, and a hook of this instance then calls \<^verbatim>\<open>assets()\<close>
  again and ends in a TypeError. The model has one error for that load and does not
  follow what such a hook logs or tracks before it throws.
\<close>

definition node_require :: "state \<Rightarrow> (error + js) \<times> state" where
  "node_require s =
     (case webpack_assets_path s of
        None \<Rightarrow> (Inl Missing_path, s)
      | Some path \<Rightarrow>
          (case require_cache s path of
             Some exports \<Rightarrow> (Inr exports, s)
           | None \<Rightarrow>
               (case files s path of
                  None \<Rightarrow> (Inl (Cannot_find_module path), s)
                | Some contents \<Rightarrow>
                    if json_file path
                    then (Inr contents,
                          s\<lparr>require_cache := (require_cache s)(path \<mapsto> contents)\<rparr>)
                    else (Inl (Load_failed path), s))))"

definition delete_require_cache :: "string \<Rightarrow> state \<Rightarrow> state" where
  "delete_require_cache path s = s\<lparr>require_cache := (require_cache s)(path := None)\<rparr>"

text \<open>
  Modelled from the spec: require-hacker is a library outside the repository. The spec
  describes a hook as a registration that is installed, yields a dispose token, and is
  removed by releasing the token; a duplicate installation is allowed. So mounting appends
  the closure under a fresh handle, and \<^verbatim>\<open>unmount\<close> removes what the handle mounted.
\<close>

definition mount :: "resolver \<Rightarrow> state \<Rightarrow> nat \<times> state" where
  "mount r s =
     (next_handle s,
      s\<lparr>mounted := mounted s @ [(next_handle s, r)], next_handle := Suc (next_handle s)\<rparr>)"

definition unmount :: "nat \<Rightarrow> state \<Rightarrow> state" where
  "unmount h s = s\<lparr>mounted := filter (\<lambda>entry. fst entry \<noteq> h) (mounted s)\<rparr>"

text \<open>
  Modelled from the spec: \<^verbatim>\<open>to_javascript_module_source\<close> of require-hacker makes the
  "synthesized module result" of a claimed load; the module is given by the value it
  exports.
\<close>

datatype js_module = Module_exports js

definition to_javascript_module_source :: "js \<Rightarrow> js_module" where
  "to_javascript_module_source source = Module_exports source"

section \<open>The methods of the class\<close>

definition enable_aliasing :: "state \<Rightarrow> state" where
  "enable_aliasing s =
     (case mount (Global_resolver ''aliasing'') s of
        (handle, s1) \<Rightarrow> s1\<lparr>alias_hook := Some handle\<rparr>)"

text \<open>
  The constructor, on options already normalised (\<^verbatim>\<open>convert_from_camel_case\<close>,
  \<^verbatim>\<open>clone\<close> and \<^verbatim>\<open>normalize_options\<close> are not among the sources): no hook, no cached
  asset, and the aliasing hook mounted when aliases are given. Its last arguments are the
  Node.js process it is created in: the require cache, the files, the mounted hooks and
  the next free handle.
\<close>

definition constructor ::
  "js \<Rightarrow> string option \<Rightarrow> string \<Rightarrow> (string \<times> description) list
    \<Rightarrow> (string \<times> string) list option
    \<Rightarrow> (string \<rightharpoonup> js) \<Rightarrow> (string \<rightharpoonup> js) \<Rightarrow> (nat \<times> resolver) list \<Rightarrow> nat \<Rightarrow> state" where
  "constructor dev project file_path asset_types aliases cache fs registry fresh =
     (let s = \<lparr>options_development = dev,
                options_project_path = project,
                options_webpack_assets_file_path = file_path,
                options_assets = asset_types,
                options_alias = aliases,
                webpack_assets_path = None,
                hooks = [],
                alias_hook = None,
                cached_assets = [],
                log = [],
                require_cache = cache,
                files = fs,
                mounted = registry,
                next_handle = fresh\<rparr>;
          s1 = (if options_alias s \<noteq> None then enable_aliasing s else s)
      in log_call Log_debug ''instantiated webpack-isomorphic-tools with options'' s1)"

definition development :: "js \<Rightarrow> state \<Rightarrow> state" where
  "development flag s =
     (let s1 = s\<lparr>options_development := (if exists flag then flag else JBoolean True)\<rparr>
      in if truthy (options_development s1)
         then log_call Log_debug ''entering development mode'' s1
         else log_call Log_debug ''entering production mode'' s1)"

definition not_found_message :: "string option \<Rightarrow> string" where
  "not_found_message path =
     [CHR 0x22] @ to_string path @ [CHR 0x22]
       @ '' not found. Most likely it hasn't yet been generated by Webpack. Using an empty stub instead.''"

definition assets :: "state \<Rightarrow> (error + js) \<times> state" where
  "assets s =
     (if truthy (options_development s)
      then
        (if \<not> existsSync (webpack_assets_path s) s
         then (Inr default_webpack_assets,
               log_call Log_error (not_found_message (webpack_assets_path s)) s)
         else node_require s)
      else node_require s)"

definition refresh :: "state \<Rightarrow> (error + unit) \<times> state" where
  "refresh s =
     (if \<not> truthy (options_development s) then (Inl Refresh_in_production, s)
      else
        let s1 = log_call Log_debug ''flushing require() caches'' s;
            s2 = delete_require_cache (to_string (webpack_assets_path s1)) s1;
            s3 = fold (\<lambda>path t.
                        delete_require_cache path
                          (log_call Log_debug ('' flushing require() cache for '' @ path) t))
                   (cached_assets s2) s2
        in (Inr (), s3\<lparr>cached_assets := []\<rparr>))"

definition register_extension :: "string \<Rightarrow> description \<Rightarrow> state \<Rightarrow> state" where
  "register_extension extension description s =
     (let s1 = log_call Log_debug ('' registering a require() hook for *.'' @ extension) s
      in case mount (Extension_resolver extension description) s1 of
           (handle, s2) \<Rightarrow> s2\<lparr>hooks := hooks s2 @ [handle]\<rparr>)"

definition register :: "state \<Rightarrow> state" where
  "register s =
     (let s1 = log_call Log_debug ''registering require() hooks for assets'' s
      in fold (\<lambda>asset_type t.
                 fold (\<lambda>extension. register_extension extension (snd asset_type))
                   (extensions (snd asset_type)) t)
           (options_assets s1) s1)"

definition asset_source :: "string \<Rightarrow> state \<Rightarrow> (error + js) \<times> state" where
  "asset_source asset_path s =
     (let s1 = log_call Log_debug ('' requiring '' @ asset_path) s
      in if asset_path = [] then (Inr JUndefined, s1)
         else
           (case assets s1 of
              (Inl e, s2) \<Rightarrow> (Inl e, s2)
            | (Inr webpack_assets, s2) \<Rightarrow>
                (case get webpack_assets ''assets'' of
                   Inl e \<Rightarrow> (Inl e, s2)
                 | Inr assets_map \<Rightarrow>
                     (case get assets_map asset_path of
                        Inl e \<Rightarrow> (Inl e, s2)
                      | Inr asset \<Rightarrow>
                          if exists asset then (Inr asset, s2)
                          else (Inr JUndefined,
                                log_call Log_error (''asset not found: '' @ asset_path) s2)))))"

text \<open>
  \<^verbatim>\<open>require\<close> yields the module source that claims the load, or nothing
  (\<^verbatim>\<open>undefined\<close>, here \<open>None\<close>) to decline it; a throw keeps the state reached.
\<close>

definition require ::
  "deps \<Rightarrow> string \<Rightarrow> description \<Rightarrow> state \<Rightarrow> (error + js_module option) \<times> state" where
  "require d global_asset_path description s =
     (let s1 = log_call Log_debug (''require() called for '' @ global_asset_path) s
      in case options_project_path s1 of
           None \<Rightarrow> (Inl Project_path_missing, s1)
         | Some project_path \<Rightarrow>
             if project_path = [] then (Inl Project_path_missing, s1)
             else
               let asset_path = normalize_asset_path d global_asset_path project_path
               in if \<not> includes_path asset_path description \<or> excludes asset_path description
                  then (Inr None,
                        log_call Log_debug ('' skipping require call for '' @ asset_path) s1)
                  else
                    let s2 = (if truthy (options_development s1)
                              then s1\<lparr>cached_assets := cached_assets s1 @ [global_asset_path]\<rparr>
                              else s1)
                    in (case asset_source (webpack_path d asset_path) s2 of
                          (Inl e, s3) \<Rightarrow> (Inl e, s3)
                        | (Inr source, s3) \<Rightarrow>
                            (Inr (Some (to_javascript_module_source source)), s3)))"

text \<open>
  What a hook mounted by \<^verbatim>\<open>register_extension\<close> does when it fires on a path: the
  closure for \<^verbatim>\<open>json\<close> has the special case, the closure of any other extension has not.
\<close>

definition extension_hook ::
  "deps \<Rightarrow> string \<Rightarrow> description \<Rightarrow> string \<Rightarrow> state \<Rightarrow> (error + js_module option) \<times> state" where
  "extension_hook d extension description path s =
     (if extension = ''json''
      then
        (if Some path = webpack_assets_path s then (Inr None, s)
         else require d path description s)
      else require d path description s)"

text \<open>What the hook mounted by \<^verbatim>\<open>enable_aliasing\<close> does when it fires on a path.\<close>

definition aliasing_hook :: "deps \<Rightarrow> string \<Rightarrow> state \<Rightarrow> string option \<times> state" where
  "aliasing_hook d path s =
     (case common_alias_hook d path (options_project_path s) (options_alias s) of
        (result, lines) \<Rightarrow> (result, s\<lparr>log := log s @ lines\<rparr>))"

definition undo :: "state \<Rightarrow> state" where
  "undo s =
     (let s1 = fold unmount (hooks s) s
      in case alias_hook s1 of
           None \<Rightarrow> s1
         | Some handle \<Rightarrow> unmount handle s1)"

subsection \<open>Waiting for the manifest\<close>

text \<open>
  \<^verbatim>\<open>wait_for(condition, proceed)\<close> runs \<^verbatim>\<open>check\<close> at once and then from the timer it
  sets. Time is in milliseconds; \<open>condition t\<close> is what the condition yields when called
  at time \<open>t\<close>, and a timer set at \<open>t\<close> fires at \<open>t + interval\<close>. The result lists what
  happened, with times: every call of the condition, every line logged, every timer set
  and the call of \<^verbatim>\<open>proceed\<close>. The loop has no bound of its own, so the model counts the
  timers it lets fire and yields \<open>None\<close> when they run out before \<^verbatim>\<open>proceed\<close> is called.
\<close>

definition interval :: nat where
  "interval = 300"

datatype event =
    Condition bool
  | Logged level string
  | Set_timeout nat
  | Proceed

definition negative_check :: "string option \<Rightarrow> nat \<Rightarrow> (nat \<times> event) list" where
  "negative_check path now =
     [(now, Condition False),
      (now, Logged Log_debug (''('' @ to_string path @ '' not found)'')),
      (now, Logged Log_info ''(waiting for the first Webpack build to finish)''),
      (now, Set_timeout interval)]"

fun wait_for :: "nat \<Rightarrow> string option \<Rightarrow> (nat \<Rightarrow> bool) \<Rightarrow> nat \<Rightarrow> (nat \<times> event) list option" where
  "wait_for 0 path condition now =
     (if condition now then Some [(now, Condition True), (now, Proceed)] else None)"
| "wait_for (Suc timers) path condition now =
     (if condition now then Some [(now, Condition True), (now, Proceed)]
      else
        (case wait_for timers path condition (now + interval) of
           None \<Rightarrow> None
         | Some later \<Rightarrow> Some (negative_check path now @ later)))"

text \<open>
  \<^verbatim>\<open>wait_for_assets(done)\<close> waits on \<^verbatim>\<open>fs.existsSync(this.webpack_assets_path)\<close>;
  \<open>exists_at t p\<close> tells whether the file \<open>p\<close> is on disk at time \<open>t\<close>. It returns
  \<^verbatim>\<open>this\<close>.
\<close>

definition wait_for_assets ::
  "nat \<Rightarrow> (nat \<Rightarrow> string \<Rightarrow> bool) \<Rightarrow> nat \<Rightarrow> state \<Rightarrow> (nat \<times> event) list option \<times> state" where
  "wait_for_assets timers exists_at now s =
     (wait_for timers (webpack_assets_path s)
        (\<lambda>t. case webpack_assets_path s of None \<Rightarrow> False | Some p \<Rightarrow> exists_at t p) now,
      s)"

definition server ::
  "deps \<Rightarrow> string \<Rightarrow> nat \<Rightarrow> (nat \<Rightarrow> string \<Rightarrow> bool) \<Rightarrow> nat \<Rightarrow> state
    \<Rightarrow> (nat \<times> event) list option \<times> state" where
  "server d project_path timers exists_at now s =
     (let s1 = s\<lparr>options_project_path := Some project_path\<rparr>;
          s2 = s1\<lparr>webpack_assets_path :=
                  Some (path_resolve d project_path (options_webpack_assets_file_path s1))\<rparr>;
          s3 = register s2
      in wait_for_assets timers exists_at now s3)"

subsection \<open>Calls on an instance\<close>

text \<open>
  Every way the code of the class runs: a call of one of its methods, or the firing of a
  hook it has mounted. \<open>perform\<close> gives the state after the call, also when it throws.
\<close>

datatype call =
    Development js
  | Assets
  | Refresh
  | Enable_aliasing
  | Server string nat "nat \<Rightarrow> string \<Rightarrow> bool" nat
  | Register
  | Register_extension string description
  | Require string description
  | Asset_source string
  | Undo
  | Excludes string description
  | Includes string description
  | Wait_for_assets nat "nat \<Rightarrow> string \<Rightarrow> bool" nat
  | Extension_hook_fired string description string
  | Aliasing_hook_fired string

fun perform :: "deps \<Rightarrow> call \<Rightarrow> state \<Rightarrow> state" where
  "perform d (Development flag) s = development flag s"
| "perform d Assets s = snd (assets s)"
| "perform d Refresh s = snd (refresh s)"
| "perform d Enable_aliasing s = enable_aliasing s"
| "perform d (Server project_path timers exists_at now) s =
     snd (server d project_path timers exists_at now s)"
| "perform d Register s = register s"
| "perform d (Register_extension extension description) s =
     register_extension extension description s"
| "perform d (Require path description) s = snd (require d path description s)"
| "perform d (Asset_source path) s = snd (asset_source path s)"
| "perform d Undo s = undo s"
| "perform d (Excludes path description) s = s"
| "perform d (Includes path description) s = s"
| "perform d (Wait_for_assets timers exists_at now) s =
     snd (wait_for_assets timers exists_at now s)"
| "perform d (Extension_hook_fired extension description path) s =
     snd (extension_hook d extension description path s)"
| "perform d (Aliasing_hook_fired path) s = snd (aliasing_hook d path s)"

section \<open>The specification's wording, for comparison\<close>

text \<open>
  The inclusion policy as the specification words it: intercept when the include list is
  empty or absent or one of its entries matches, and no entry of the exclude list matches.
\<close>

definition spec_intercept :: "string \<Rightarrow> description \<Rightarrow> bool" where
  "spec_intercept path options =
     ((case include_list options of
         None \<Rightarrow> True
       | Some list \<Rightarrow> list = [] \<or> list_ex (\<lambda>m. matches m path) list)
      \<and> \<not> (case exclude_list options of
              None \<Rightarrow> False
            | Some list \<Rightarrow> list_ex (\<lambda>m. matches m path) list))"

text \<open>
  The self-load guard as the specification words it: a hook declines the manifest's path
  when the hook's extension is the extension of the manifest file.
\<close>

definition has_extension :: "string \<Rightarrow> string \<Rightarrow> bool" where
  "has_extension path extension =
     (length extension < length path
      \<and> drop (length path - Suc (length extension)) path = ''.'' @ extension)"

definition spec_declines_manifest :: "string \<Rightarrow> string \<Rightarrow> state \<Rightarrow> bool" where
  "spec_declines_manifest extension path s =
     (Some path = webpack_assets_path s \<and> has_extension path extension)"

section \<open>Sample inputs\<close>

text \<open>
  A project at \<^verbatim>\<open>/app\<close> with POSIX paths, used for the instances below: normalising
  strips the project path and the separator, a webpack path starts with \<^verbatim>\<open>./\<close>.
\<close>

definition sample_deps :: deps where
  "sample_deps =
     \<lparr>normalize_asset_path = (\<lambda>global_asset_path project_path.
         drop (Suc (length project_path)) global_asset_path),
      webpack_path = (\<lambda>path. ''./'' @ path),
      path_resolve = (\<lambda>base file. base @ ''/'' @ file),
      common_alias_hook = (\<lambda>path project_path aliases. (None, []))\<rparr>"

definition png :: description where
  "png = \<lparr>extensions = [''png''], include_list = None, exclude_list = None\<rparr>"

definition sample_manifest :: js where
  "sample_manifest = JObject [(''assets'', JObject [(''./logo.png'', JString ''/build/logo.abc.png'')])]"

text \<open>
  An instance after \<^verbatim>\<open>server('/app')\<close>, with the manifest on disk and not yet loaded;
  the development flag is the argument.
\<close>

definition sample_state :: "js \<Rightarrow> state" where
  "sample_state dev =
     snd (server sample_deps ''/app'' 0 (\<lambda>t p. True) 0
            (constructor dev None ''webpack-assets.json'' [(''images'', png)] None
               Map.empty [''/app/webpack-assets.json'' \<mapsto> sample_manifest] [] 0))"

text \<open>
  The same instance in development mode after the hook for \<^verbatim>\<open>png\<close> has claimed the load
  of \<^verbatim>\<open>/app/logo.png\<close>, and as Node.js leaves it once the module of the asset is cached
  next to an ordinary module.
\<close>

definition tracked_state :: state where
  "tracked_state =
     snd (require sample_deps ''/app/logo.png'' png (sample_state (JBoolean True)))"

definition loaded_state :: state where
  "loaded_state =
     tracked_state\<lparr>require_cache :=
       (require_cache tracked_state)
         (''/app/logo.png'' \<mapsto> JString ''/build/logo.abc.png'',
          ''/app/server.js'' \<mapsto> JObject [])\<rparr>"

text \<open>
  Stylesheets under \<^verbatim>\<open>styles/\<close> (the regular expression \<^verbatim>\<open>/^styles\//\<close>), but for one
  named by a literal and one named by a function; and a description whose include list
  is given and empty.
\<close>

definition css :: description where
  "css = \<lparr>extensions = [''css''],
           include_list = Some [RegExp (\<lambda>path. take 7 path = ''styles/'')],
           exclude_list = Some [Other (JString ''styles/skip.css''),
                                Function (\<lambda>path. JBoolean (path = ''styles/print.css''))]\<rparr>"

definition empty_include :: description where
  "empty_include = \<lparr>extensions = [''png''], include_list = Some [], exclude_list = None\<rparr>"

text \<open>
  The instance in development mode before webpack has written the manifest, and with a
  manifest file that holds \<^verbatim>\<open>null\<close>.
\<close>

definition early_state :: state where
  "early_state = (sample_state (JBoolean True))\<lparr>files := Map.empty\<rparr>"

definition broken_state :: state where
  "broken_state =
     (sample_state (JBoolean True))\<lparr>files := [''/app/webpack-assets.json'' \<mapsto> JNull]\<rparr>"

text \<open>
  Asset types for \<^verbatim>\<open>json\<close> and \<^verbatim>\<open>txt\<close> files, and an instance in production mode
  whose manifest file is named \<^verbatim>\<open>webpack-assets.txt\<close>, after \<^verbatim>\<open>server('/app')\<close>.
\<close>

definition json_files :: description where
  "json_files = \<lparr>extensions = [''json''], include_list = None, exclude_list = None\<rparr>"

definition txt_files :: description where
  "txt_files = \<lparr>extensions = [''txt''], include_list = None, exclude_list = None\<rparr>"

definition txt_manifest_state :: state where
  "txt_manifest_state =
     snd (server sample_deps ''/app'' 0 (\<lambda>t p. True) 0
            (constructor (JBoolean False) None ''webpack-assets.txt'' [(''text'', txt_files)] None
               Map.empty [''/app/webpack-assets.txt'' \<mapsto> sample_manifest] [] 0))"

text \<open>
  An instance with aliases and two asset types after \<^verbatim>\<open>server('/app')\<close>, in a process
  where another module has a hook of its own mounted.
\<close>

definition aliased_state :: state where
  "aliased_state =
     snd (server sample_deps ''/app'' 0 (\<lambda>t p. True) 0
            (constructor (JBoolean False) None ''webpack-assets.json''
               [(''images'', png), (''styles'', css)]
               (Some [(''components'', ''/app/src/components'')])
               Map.empty [''/app/webpack-assets.json'' \<mapsto> sample_manifest]
               [(0, Global_resolver ''coffee'')] 1))"

text \<open>The instance in production mode on a machine where webpack has not run.\<close>

definition unbuilt_production_state :: state where
  "unbuilt_production_state = (sample_state (JBoolean False))\<lparr>files := Map.empty\<rparr>"

section \<open>Evaluating the sample inputs\<close>

lemma sample_state_eval:
  "sample_state dev =
    \<lparr>options_development = dev, options_project_path = Some ''/app'',
      options_webpack_assets_file_path = ''webpack-assets.json'',
      options_assets = [(''images'', png)],
      options_alias = None,
      webpack_assets_path = Some ''/app/webpack-assets.json'', hooks = [0],
      alias_hook = None, cached_assets = [],
      log =
        [(Log_debug, ''instantiated webpack-isomorphic-tools with options''),
         (Log_debug, ''registering require() hooks for assets''),
         (Log_debug, '' registering a require() hook for *.png'')],
      require_cache = Map.empty,
      files = [''/app/webpack-assets.json'' \<mapsto> sample_manifest],
      mounted = [(0, Extension_resolver ''png'' png)],
      next_handle = 1\<rparr>"
  by (simp add: sample_state_def sample_deps_def constructor_def server_def register_def
        register_extension_def mount_def log_call_def wait_for_assets_def png_def Let_def)

lemma tracked_state_eval:
  "tracked_state =
    \<lparr>options_development = JBoolean True, options_project_path = Some ''/app'',
      options_webpack_assets_file_path = ''webpack-assets.json'',
      options_assets = [(''images'', png)],
      options_alias = None,
      webpack_assets_path = Some ''/app/webpack-assets.json'', hooks = [0],
      alias_hook = None, cached_assets = [''/app/logo.png''],
      log =
        [(Log_debug, ''instantiated webpack-isomorphic-tools with options''),
         (Log_debug, ''registering require() hooks for assets''),
         (Log_debug, '' registering a require() hook for *.png''),
         (Log_debug, ''require() called for /app/logo.png''),
         (Log_debug, '' requiring ./logo.png'')],
      require_cache = [''/app/webpack-assets.json'' \<mapsto> sample_manifest],
      files = [''/app/webpack-assets.json'' \<mapsto> sample_manifest],
      mounted = [(0, Extension_resolver ''png'' png)],
      next_handle = 1\<rparr>"
  by (simp add: tracked_state_def sample_state_eval require_def log_call_def sample_deps_def
        includes_path_def excludes_def asset_source_def assets_def existsSync_def
        node_require_def json_file_def exists_def sample_manifest_def png_def Let_def)

section \<open>Flushing the require cache\<close>

lemma flush_fold:
  "fold (\<lambda>path t. delete_require_cache path (log_call Log_debug (m path) t)) xs t =
     t\<lparr>log := log t @ map (\<lambda>p. (Log_debug, m p)) xs,
       require_cache := fold (\<lambda>p c. c(p := None)) xs (require_cache t)\<rparr>"
  by (induction xs arbitrary: t) (simp_all add: delete_require_cache_def log_call_def)

lemma fold_delete_restrict:
  "fold (\<lambda>p c. c(p := None)) xs c = c |` (- set xs)"
proof (induction xs arbitrary: c)
  case Nil
  show ?case by simp
next
  case (Cons x xs)
  have step: "c(x := None) |` (- set xs) = c |` (- set (x # xs))"
    by (rule ext) (simp add: restrict_map_def)
  have "fold (\<lambda>p c. c(p := None)) (x # xs) c = fold (\<lambda>p c. c(p := None)) xs (c(x := None))"
    by simp
  also have "\<dots> = c(x := None) |` (- set xs)"
    by (rule Cons.IH)
  also note step
  finally show ?case .
qed

text \<open>
  C2. With development mode off, \<^verbatim>\<open>refresh()\<close> throws and leaves the state as it was:
  \<^verbatim>\<open>cached_assets\<close> is unchanged and \<^verbatim>\<open>require.cache\<close> keeps every entry, the
  manifest's and those of the tracked assets.
\<close>

theorem refresh_production_throws:
  "\<not> truthy (options_development s) \<Longrightarrow>
     fst (refresh s) = Inl Refresh_in_production
     \<and> snd (refresh s) = s
     \<and> cached_assets (snd (refresh s)) = cached_assets s
     \<and> require_cache (snd (refresh s)) = require_cache s"
  by (simp add: refresh_def)

theorem refresh_production_throws_witness:
  "\<not> truthy (options_development (development (JBoolean False) loaded_state))
   \<and> fst (refresh (development (JBoolean False) loaded_state)) = Inl Refresh_in_production
   \<and> cached_assets (snd (refresh (development (JBoolean False) loaded_state)))
       = [''/app/logo.png'']
   \<and> require_cache (snd (refresh (development (JBoolean False) loaded_state)))
        ''/app/webpack-assets.json'' = Some sample_manifest
   \<and> require_cache (snd (refresh (development (JBoolean False) loaded_state)))
        ''/app/logo.png'' = Some (JString ''/build/logo.abc.png'')"
proof -
  have off: "\<not> truthy (options_development (development (JBoolean False) loaded_state))"
    by (simp add: development_def exists_def log_call_def)
  show ?thesis
    using off refresh_production_throws [OF off]
    by (simp add: development_def exists_def log_call_def loaded_state_def tracked_state_eval)
qed

lemma log_fields:
  "require_cache (log_call l m s) = require_cache s"
  "cached_assets (log_call l m s) = cached_assets s"
  "webpack_assets_path (log_call l m s) = webpack_assets_path s"
  "options_development (log_call l m s) = options_development s"
  "options_project_path (log_call l m s) = options_project_path s"
  "files (log_call l m s) = files s"
  "mounted (log_call l m s) = mounted s"
  "hooks (log_call l m s) = hooks s"
  "alias_hook (log_call l m s) = alias_hook s"
  "log (log_call l m s) = log s @ [(l, m)]"
  by (simp_all add: log_call_def)

lemma delete_fields:
  "require_cache (delete_require_cache p s) = (require_cache s)(p := None)"
  "cached_assets (delete_require_cache p s) = cached_assets s"
  "log (delete_require_cache p s) = log s"
  by (simp_all add: delete_require_cache_def)

text \<open>
  C3. With development mode on, \<^verbatim>\<open>refresh()\<close> succeeds. It deletes the manifest's entry
  from \<^verbatim>\<open>require.cache\<close>, then the entry of each path of \<^verbatim>\<open>cached_assets\<close> in the
  order of the list, and leaves \<^verbatim>\<open>cached_assets\<close> empty. What is left of the cache is
  the old cache without these paths.
\<close>

theorem refresh_development_flushes:
  "truthy (options_development s) \<Longrightarrow>
     fst (refresh s) = Inr ()
     \<and> require_cache (snd (refresh s)) =
         fold (\<lambda>path cache. cache(path := None)) (cached_assets s)
           ((require_cache s)(to_string (webpack_assets_path s) := None))
     \<and> require_cache (snd (refresh s)) =
         require_cache s |` (- insert (to_string (webpack_assets_path s)) (set (cached_assets s)))
     \<and> cached_assets (snd (refresh s)) = []"
proof -
  assume dev: "truthy (options_development s)"
  have cache: "require_cache (snd (refresh s)) =
         fold (\<lambda>path cache. cache(path := None)) (cached_assets s)
           ((require_cache s)(to_string (webpack_assets_path s) := None))"
    using dev by (simp add: refresh_def Let_def flush_fold log_fields delete_fields)
  have "(require_cache s)(to_string (webpack_assets_path s) := None) |` (- set (cached_assets s))
      = require_cache s |` (- insert (to_string (webpack_assets_path s)) (set (cached_assets s)))"
    by (rule ext) (simp add: restrict_map_def)
  with cache have restr: "require_cache (snd (refresh s)) =
         require_cache s |` (- insert (to_string (webpack_assets_path s)) (set (cached_assets s)))"
    by (simp add: fold_delete_restrict)
  from dev have "fst (refresh s) = Inr ()" "cached_assets (snd (refresh s)) = []"
    by (simp_all add: refresh_def Let_def)
  with cache restr show ?thesis by simp
qed

theorem refresh_development_flushes_witness:
  "truthy (options_development loaded_state)
   \<and> fst (refresh loaded_state) = Inr ()
   \<and> require_cache (snd (refresh loaded_state)) ''/app/webpack-assets.json'' = None
   \<and> require_cache (snd (refresh loaded_state)) ''/app/logo.png'' = None
   \<and> require_cache (snd (refresh loaded_state)) ''/app/server.js'' = Some (JObject [])
   \<and> cached_assets (snd (refresh loaded_state)) = []"
proof -
  have on: "truthy (options_development loaded_state)"
    by (simp add: loaded_state_def tracked_state_eval)
  show ?thesis
    using on refresh_development_flushes [OF on]
    by (simp add: loaded_state_def tracked_state_eval restrict_map_def)
qed

section \<open>The inclusion policy\<close>

lemma includes_loop_iff: "includes_loop path list \<longleftrightarrow> (\<exists>m\<in>set list. matches m path)"
  by (induction list) simp_all

lemma excludes_loop_iff: "excludes_loop path list \<longleftrightarrow> (\<exists>m\<in>set list. matches m path)"
  by (induction list) simp_all

lemma includes_path_iff:
  "includes_path path options \<longleftrightarrow>
     include_list options = None
     \<or> (\<exists>list. include_list options = Some list \<and> (\<exists>m\<in>set list. matches m path))"
  by (simp add: includes_path_def includes_loop_iff split: option.split)

lemma excludes_iff:
  "excludes path options \<longleftrightarrow>
     (\<exists>list. exclude_list options = Some list \<and> (\<exists>m\<in>set list. matches m path))"
  by (simp add: excludes_def excludes_loop_iff split: option.split)

lemma require_declines:
  assumes "options_project_path s = Some root" and "root \<noteq> []"
  shows "fst (require d path description s) = Inr None \<longleftrightarrow>
           \<not> includes_path (normalize_asset_path d path root) description
           \<or> excludes (normalize_asset_path d path root) description"
  using assms
  by (simp add: require_def Let_def log_call_def split: prod.split sum.split)

text \<open>
  C1, amended. Once the project path is set, the hook does not decline a path exactly
  when its include list is absent or one of its entries matches the normalised path, and
  no entry of its exclude list matches it; a match in the exclude list makes it decline
  whatever the include list says. An entry matches as \<open>matches\<close> says: a regular
  expression by its test, a function by a truthy result, anything else by being that very
  string. An include list that is given and empty includes nothing.
\<close>

theorem require_intercepts_iff:
  assumes "options_project_path s = Some root" and "root \<noteq> []"
  shows "(fst (require d path description s) \<noteq> Inr None \<longleftrightarrow>
            (include_list description = None
             \<or> (\<exists>list. include_list description = Some list
                   \<and> (\<exists>m\<in>set list. matches m (normalize_asset_path d path root))))
            \<and> \<not> (\<exists>list. exclude_list description = Some list
                   \<and> (\<exists>m\<in>set list. matches m (normalize_asset_path d path root))))
         \<and> ((\<exists>list. exclude_list description = Some list
                \<and> (\<exists>m\<in>set list. matches m (normalize_asset_path d path root)))
              \<longrightarrow> fst (require d path description s) = Inr None)
         \<and> (\<forall>test key. matches (RegExp test) key = test key)
         \<and> (\<forall>f key. matches (Function f) key = truthy (f key))
         \<and> (\<forall>v key. matches (Other v) key = (v = JString key))"
proof -
  have "fst (require d path description s) = Inr None \<longleftrightarrow>
      \<not> (include_list description = None
          \<or> (\<exists>list. include_list description = Some list
                \<and> (\<exists>m\<in>set list. matches m (normalize_asset_path d path root))))
      \<or> (\<exists>list. exclude_list description = Some list
            \<and> (\<exists>m\<in>set list. matches m (normalize_asset_path d path root)))"
    using require_declines [OF assms, of d path description]
    by (simp only: includes_path_iff excludes_iff)
  then show ?thesis
    by simp
qed

theorem require_intercepts_iff_witness:
  "options_project_path (sample_state (JBoolean False)) = Some ''/app'' \<and> ''/app'' \<noteq> []
   \<and> fst (require sample_deps ''/app/styles/main.css'' css (sample_state (JBoolean False))) \<noteq> Inr None
   \<and> fst (require sample_deps ''/app/styles/skip.css'' css (sample_state (JBoolean False))) = Inr None
   \<and> fst (require sample_deps ''/app/styles/print.css'' css (sample_state (JBoolean False))) = Inr None
   \<and> fst (require sample_deps ''/app/fonts/a.css'' css (sample_state (JBoolean False))) = Inr None
   \<and> fst (require sample_deps ''/app/fonts/a.css'' png (sample_state (JBoolean False))) \<noteq> Inr None"
proof -
  have root: "options_project_path (sample_state (JBoolean False)) = Some ''/app''"
    by (simp add: sample_state_eval)
  have nonempty: "''/app'' \<noteq> []"
    by simp
  show ?thesis
    using root
      require_intercepts_iff [OF root nonempty, of sample_deps "''/app/styles/main.css''" css]
      require_intercepts_iff [OF root nonempty, of sample_deps "''/app/styles/skip.css''" css]
      require_intercepts_iff [OF root nonempty, of sample_deps "''/app/styles/print.css''" css]
      require_intercepts_iff [OF root nonempty, of sample_deps "''/app/fonts/a.css''" css]
      require_intercepts_iff [OF root nonempty, of sample_deps "''/app/fonts/a.css''" png]
    by (simp add: sample_deps_def css_def png_def)
qed

text \<open>
  C1 as stated fails for an include list that is given and empty: the wording intercepts
  the path, the hook declines it.
\<close>

theorem empty_include_list_counterexample:
  "spec_intercept (normalize_asset_path sample_deps ''/app/logo.png'' ''/app'') empty_include
   \<and> fst (require sample_deps ''/app/logo.png'' empty_include (sample_state (JBoolean False)))
       = Inr None"
  by (simp add: spec_intercept_def empty_include_def sample_state_eval require_def Let_def
        log_call_def includes_path_def sample_deps_def)

section \<open>Reading the manifest\<close>

lemma json_file_iff:
  "json_file (stem @ ''.json'') \<longleftrightarrow> stem \<noteq> [] \<and> last stem \<noteq> CHR ''/''"
proof (cases "stem = []")
  case True
  then show ?thesis by (simp add: json_file_def)
next
  case False
  then have "(stem @ ''.json'') ! (length stem - 1) = last stem"
    by (simp add: nth_append last_conv_nth)
  with False show ?thesis
    by (simp add: json_file_def)
qed

lemma node_require_fields:
  "cached_assets (snd (node_require s)) = cached_assets s"
  "log (snd (node_require s)) = log s"
  "options_development (snd (node_require s)) = options_development s"
  "webpack_assets_path (snd (node_require s)) = webpack_assets_path s"
  "hooks (snd (node_require s)) = hooks s"
  "alias_hook (snd (node_require s)) = alias_hook s"
  "mounted (snd (node_require s)) = mounted s"
  by (simp_all add: node_require_def split: option.split)

lemma assets_cached_assets: "cached_assets (snd (assets s)) = cached_assets s"
  by (simp add: assets_def node_require_fields log_fields)

lemma assets_frame:
  assumes "options_development t = options_development s"
    and "webpack_assets_path t = webpack_assets_path s"
    and "files t = files s"
    and "require_cache t = require_cache s"
  shows "fst (assets t) = fst (assets s)"
  using assms
  by (simp add: assets_def existsSync_def node_require_def split: option.split)

text \<open>
  C8, amended. In development mode with no manifest file on disk, \<^verbatim>\<open>assets()\<close> does not
  fail: it returns the empty default manifest, and all it changes is the log, which gets
  one error line. With a manifest file named \<^verbatim>\<open>*.json\<close> on disk it returns, in either
  mode, the contents of the file, or the exports cached for the path by an earlier read.
  In production mode with no such file and nothing cached it throws the error of
  \<^verbatim>\<open>require\<close> and changes nothing.
\<close>

theorem assets_stub_or_manifest:
  "(truthy (options_development s) \<and> \<not> existsSync (webpack_assets_path s) s \<longrightarrow>
      fst (assets s) = Inr (JObject [(''assets'', JObject [])])
      \<and> log (snd (assets s)) =
          log s @ [(Log_error,
            CHR 0x22 # to_string (webpack_assets_path s) @ CHR 0x22 #
              '' not found. Most likely it hasn't yet been generated by Webpack. Using an empty stub instead.'')]
      \<and> snd (assets s) = s\<lparr>log := log (snd (assets s))\<rparr>)
   \<and> (\<forall>stem contents.
         webpack_assets_path s = Some (stem @ ''.json'') \<and> stem \<noteq> [] \<and> last stem \<noteq> CHR ''/''
         \<and> files s (stem @ ''.json'') = Some contents \<longrightarrow>
         fst (assets s) =
           Inr (case require_cache s (stem @ ''.json'') of
                  None \<Rightarrow> contents
                | Some exports \<Rightarrow> exports))
   \<and> (\<forall>path.
         \<not> truthy (options_development s) \<and> webpack_assets_path s = Some path
         \<and> files s path = None \<and> require_cache s path = None \<longrightarrow>
         assets s = (Inl (Cannot_find_module path), s))"
proof -
  have stub: "truthy (options_development s) \<and> \<not> existsSync (webpack_assets_path s) s \<longrightarrow>
      fst (assets s) = Inr (JObject [(''assets'', JObject [])])
      \<and> log (snd (assets s)) =
          log s @ [(Log_error,
            CHR 0x22 # to_string (webpack_assets_path s) @ CHR 0x22 #
              '' not found. Most likely it hasn't yet been generated by Webpack. Using an empty stub instead.'')]
      \<and> snd (assets s) = s\<lparr>log := log (snd (assets s))\<rparr>"
    by (simp add: assets_def default_webpack_assets_def log_call_def not_found_message_def)
  have contents: "fst (assets s) =
      Inr (case require_cache s (stem @ ''.json'') of None \<Rightarrow> contents | Some exports \<Rightarrow> exports)"
    if "webpack_assets_path s = Some (stem @ ''.json'')" and "stem \<noteq> []"
      and "last stem \<noteq> CHR ''/''" and "files s (stem @ ''.json'') = Some contents"
    for stem contents
  proof -
    from that(2,3) have "json_file (stem @ ''.json'')"
      by (simp add: json_file_iff)
    with that(1,4) show ?thesis
      by (simp add: assets_def existsSync_def node_require_def split: option.split)
  qed
  have missing: "assets s = (Inl (Cannot_find_module path), s)"
    if "\<not> truthy (options_development s)" and "webpack_assets_path s = Some path"
      and "files s path = None" and "require_cache s path = None"
    for path
    using that by (simp add: assets_def node_require_def)
  from stub contents missing show ?thesis
    by blast
qed

theorem assets_stub_or_manifest_witness:
  "truthy (options_development early_state)
   \<and> \<not> existsSync (webpack_assets_path early_state) early_state
   \<and> fst (assets early_state) = Inr (JObject [(''assets'', JObject [])])
   \<and> last (log (snd (assets early_state))) =
       (Log_error,
        CHR 0x22 # ''/app/webpack-assets.json'' @ CHR 0x22 #
          '' not found. Most likely it hasn't yet been generated by Webpack. Using an empty stub instead.'')
   \<and> fst (assets (sample_state (JBoolean False))) = Inr sample_manifest
   \<and> fst (assets (sample_state (JBoolean True))) = Inr sample_manifest
   \<and> fst (assets (loaded_state\<lparr>files := [''/app/webpack-assets.json'' \<mapsto> JObject []]\<rparr>))
       = Inr sample_manifest
   \<and> \<not> truthy (options_development unbuilt_production_state)
   \<and> assets unbuilt_production_state
       = (Inl (Cannot_find_module ''/app/webpack-assets.json''), unbuilt_production_state)"
proof -
  have early: "truthy (options_development early_state)
      \<and> \<not> existsSync (webpack_assets_path early_state) early_state"
    by (simp add: early_state_def sample_state_eval existsSync_def)
  have early_path: "to_string (webpack_assets_path early_state) = ''/app/webpack-assets.json''"
    by (simp add: early_state_def sample_state_eval)
  have name: "''/app/webpack-assets.json'' = ''/app/webpack-assets'' @ ''.json''"
    by simp
  have on_disk: "webpack_assets_path (sample_state dev) = Some (''/app/webpack-assets'' @ ''.json'')
      \<and> ''/app/webpack-assets'' \<noteq> [] \<and> last ''/app/webpack-assets'' \<noteq> CHR ''/''
      \<and> files (sample_state dev) (''/app/webpack-assets'' @ ''.json'') = Some sample_manifest
      \<and> require_cache (sample_state dev) (''/app/webpack-assets'' @ ''.json'') = None" for dev
    by (simp add: sample_state_eval)
  have cached: "webpack_assets_path (loaded_state\<lparr>files := [''/app/webpack-assets.json'' \<mapsto> JObject []]\<rparr>)
        = Some (''/app/webpack-assets'' @ ''.json'')
      \<and> files (loaded_state\<lparr>files := [''/app/webpack-assets.json'' \<mapsto> JObject []]\<rparr>)
          (''/app/webpack-assets'' @ ''.json'') = Some (JObject [])
      \<and> require_cache (loaded_state\<lparr>files := [''/app/webpack-assets.json'' \<mapsto> JObject []]\<rparr>)
          (''/app/webpack-assets'' @ ''.json'') = Some sample_manifest"
    by (simp add: loaded_state_def tracked_state_eval)
  have unbuilt: "\<not> truthy (options_development unbuilt_production_state)
      \<and> webpack_assets_path unbuilt_production_state = Some ''/app/webpack-assets.json''
      \<and> files unbuilt_production_state ''/app/webpack-assets.json'' = None
      \<and> require_cache unbuilt_production_state ''/app/webpack-assets.json'' = None"
    by (simp add: unbuilt_production_state_def sample_state_eval)
  note stub = assets_stub_or_manifest [of early_state, THEN conjunct1, rule_format, OF early,
      unfolded early_path]
  note read = assets_stub_or_manifest [THEN conjunct2, THEN conjunct1, rule_format]
  note production = read [of "sample_state (JBoolean False)" "''/app/webpack-assets''" sample_manifest]
  note development = read [of "sample_state (JBoolean True)" "''/app/webpack-assets''" sample_manifest]
  note stale = read [of "loaded_state\<lparr>files := [''/app/webpack-assets.json'' \<mapsto> JObject []]\<rparr>"
      "''/app/webpack-assets''" "JObject []"]
  note throws = assets_stub_or_manifest [of unbuilt_production_state, THEN conjunct2,
      THEN conjunct2, rule_format, of "''/app/webpack-assets.json''"]
  from early stub on_disk [of "JBoolean False"] on_disk [of "JBoolean True"] cached unbuilt
    production development stale throws
  show ?thesis
    by simp
qed

text \<open>
  C8 as stated fails in production mode when the manifest file is not there:
  \<^verbatim>\<open>assets()\<close> returns no contents, \<^verbatim>\<open>require\<close> throws.
\<close>

theorem assets_production_missing_counterexample:
  "\<not> truthy (options_development unbuilt_production_state)
   \<and> \<not> existsSync (webpack_assets_path unbuilt_production_state) unbuilt_production_state
   \<and> fst (assets unbuilt_production_state) = Inl (Cannot_find_module ''/app/webpack-assets.json'')"
  by (simp add: unbuilt_production_state_def sample_state_eval assets_def node_require_def
        existsSync_def)

section \<open>Claimed loads\<close>

lemma asset_source_cached_assets:
  "cached_assets (snd (asset_source key s)) = cached_assets s"
proof -
  have "cached_assets (snd (assets (log_call Log_debug ('' requiring '' @ key) s)))
      = cached_assets s"
    by (simp add: assets_cached_assets log_fields)
  then show ?thesis
    by (auto simp add: asset_source_def Let_def log_fields split: prod.split sum.split)
qed

lemma require_passes:
  assumes "options_project_path s = Some root" and "root \<noteq> []"
    and "includes_path (normalize_asset_path d path root) description"
    and "\<not> excludes (normalize_asset_path d path root) description"
  shows "require d path description s =
     (let s1 = log_call Log_debug (''require() called for '' @ path) s;
          s2 = (if truthy (options_development s)
                then s1\<lparr>cached_assets := cached_assets s @ [path]\<rparr> else s1)
      in case asset_source (webpack_path d (normalize_asset_path d path root)) s2 of
           (Inl e, s3) \<Rightarrow> (Inl e, s3)
         | (Inr source, s3) \<Rightarrow> (Inr (Some (to_javascript_module_source source)), s3))"
  using assms
  by (simp add: require_def Let_def log_fields)

lemma asset_source_absent:
  assumes "key \<noteq> []"
    and "fst (assets (log_call Log_debug ('' requiring '' @ key) t)) = Inr manifest"
    and "get manifest ''assets'' = Inr (JObject entries)"
    and "map_of entries key = None"
  shows "asset_source key t =
     (Inr JUndefined,
      log_call Log_error (''asset not found: '' @ key)
        (snd (assets (log_call Log_debug ('' requiring '' @ key) t))))"
  using assms
  by (cases "assets (log_call Log_debug ('' requiring '' @ key) t)")
     (simp add: asset_source_def Let_def exists_def)

text \<open>
  C5. Take a path that passes the inclusion policy, a manifest that \<^verbatim>\<open>assets()\<close> returns,
  and a key (the webpack path of the normalised path, not the empty string) that the
  \<^verbatim>\<open>assets\<close> mapping of the manifest does not have. Then the hook claims the load: it
  returns the source of a module whose exports are \<^verbatim>\<open>undefined\<close>, neither throwing nor
  declining, and the last line it logs is the error "asset not found".
\<close>

theorem absent_asset_is_claimed:
  assumes "options_project_path s = Some root" and "root \<noteq> []"
    and "includes_path (normalize_asset_path d path root) description"
    and "\<not> excludes (normalize_asset_path d path root) description"
    and "webpack_path d (normalize_asset_path d path root) \<noteq> []"
    and "fst (assets s) = Inr manifest"
    and "get manifest ''assets'' = Inr (JObject entries)"
    and "map_of entries (webpack_path d (normalize_asset_path d path root)) = None"
  shows "fst (require d path description s) = Inr (Some (Module_exports JUndefined))
     \<and> last (log (snd (require d path description s)))
         = (Log_error, ''asset not found: '' @ webpack_path d (normalize_asset_path d path root))"
proof -
  define key where "key = webpack_path d (normalize_asset_path d path root)"
  define s2 where "s2 =
     (if truthy (options_development s)
      then (log_call Log_debug (''require() called for '' @ path) s)
             \<lparr>cached_assets := cached_assets s @ [path]\<rparr>
      else log_call Log_debug (''require() called for '' @ path) s)"
  have "fst (assets (log_call Log_debug ('' requiring '' @ key) s2)) = fst (assets s)"
    by (rule assets_frame) (simp_all add: s2_def log_call_def)
  with assms(6) have "fst (assets (log_call Log_debug ('' requiring '' @ key) s2)) = Inr manifest"
    by simp
  then have source: "asset_source key s2 =
     (Inr JUndefined,
      log_call Log_error (''asset not found: '' @ key)
        (snd (assets (log_call Log_debug ('' requiring '' @ key) s2))))"
    using assms(5,7,8) unfolding key_def by (intro asset_source_absent) simp_all
  have "require d path description s =
     (case asset_source key s2 of
        (Inl e, s3) \<Rightarrow> (Inl e, s3)
      | (Inr source, s3) \<Rightarrow> (Inr (Some (to_javascript_module_source source)), s3))"
    using require_passes [OF assms(1-4)] by (simp add: Let_def key_def s2_def)
  with source show ?thesis
    by (simp add: to_javascript_module_source_def log_fields key_def)
qed

theorem absent_asset_is_claimed_witness:
  "options_project_path (sample_state (JBoolean False)) = Some ''/app'' \<and> ''/app'' \<noteq> []
   \<and> includes_path ''other.png'' png \<and> \<not> excludes ''other.png'' png
   \<and> ''./other.png'' \<noteq> []
   \<and> fst (assets (sample_state (JBoolean False))) = Inr sample_manifest
   \<and> get sample_manifest ''assets'' = Inr (JObject [(''./logo.png'', JString ''/build/logo.abc.png'')])
   \<and> map_of [(''./logo.png'', JString ''/build/logo.abc.png'')] ''./other.png'' = None
   \<and> fst (require sample_deps ''/app/other.png'' png (sample_state (JBoolean False)))
       = Inr (Some (Module_exports JUndefined))
   \<and> last (log (snd (require sample_deps ''/app/other.png'' png (sample_state (JBoolean False)))))
       = (Log_error, ''asset not found: ./other.png'')"
proof -
  have root: "options_project_path (sample_state (JBoolean False)) = Some ''/app''"
    by (simp add: sample_state_eval)
  have included: "includes_path (normalize_asset_path sample_deps ''/app/other.png'' ''/app'') png"
    by (simp add: includes_path_def png_def)
  have not_excluded: "\<not> excludes (normalize_asset_path sample_deps ''/app/other.png'' ''/app'') png"
    by (simp add: excludes_def png_def)
  have key: "webpack_path sample_deps (normalize_asset_path sample_deps ''/app/other.png'' ''/app'') \<noteq> []"
    by (simp add: sample_deps_def)
  have manifest: "fst (assets (sample_state (JBoolean False))) = Inr sample_manifest"
    by (simp add: assets_def node_require_def json_file_def sample_state_eval)
  have mapping: "get sample_manifest ''assets''
      = Inr (JObject [(''./logo.png'', JString ''/build/logo.abc.png'')])"
    by (simp add: sample_manifest_def)
  have absent: "map_of [(''./logo.png'', JString ''/build/logo.abc.png'')]
      (webpack_path sample_deps (normalize_asset_path sample_deps ''/app/other.png'' ''/app'')) = None"
    by (simp add: sample_deps_def)
  show ?thesis
    using root included not_excluded manifest mapping
      absent_asset_is_claimed [OF root _ included not_excluded key manifest mapping absent]
    by (simp add: sample_deps_def)
qed

text \<open>
  C10. In development mode a load that passes the inclusion policy has its global path
  appended to \<^verbatim>\<open>cached_assets\<close> before the manifest is looked up: the lookup runs on the
  state that already tracks the path and does not change the list, so the path is tracked
  whatever the lookup gives, a value, a missing key or a throw.
\<close>

theorem development_tracks_before_lookup:
  assumes "options_project_path s = Some root" and "root \<noteq> []"
    and "includes_path (normalize_asset_path d path root) description"
    and "\<not> excludes (normalize_asset_path d path root) description"
    and "truthy (options_development s)"
  shows "snd (require d path description s) =
           snd (asset_source (webpack_path d (normalize_asset_path d path root))
                 ((log_call Log_debug (''require() called for '' @ path) s)
                    \<lparr>cached_assets := cached_assets s @ [path]\<rparr>))
     \<and> cached_assets (snd (require d path description s)) = cached_assets s @ [path]"
proof -
  have "snd (require d path description s) =
           snd (asset_source (webpack_path d (normalize_asset_path d path root))
                 ((log_call Log_debug (''require() called for '' @ path) s)
                    \<lparr>cached_assets := cached_assets s @ [path]\<rparr>))"
    using require_passes [OF assms(1-4)] assms(5)
    by (simp add: Let_def split: prod.split sum.split)
  then show ?thesis
    by (simp add: asset_source_cached_assets)
qed

theorem development_tracks_before_lookup_witness:
  "options_project_path tracked_state = Some ''/app'' \<and> ''/app'' \<noteq> []
   \<and> includes_path ''other.png'' png \<and> \<not> excludes ''other.png'' png
   \<and> truthy (options_development tracked_state)
   \<and> cached_assets (snd (require sample_deps ''/app/other.png'' png tracked_state))
       = [''/app/logo.png'', ''/app/other.png'']
   \<and> cached_assets (snd (require sample_deps ''/app/logo.png'' png broken_state))
       = [''/app/logo.png'']
   \<and> fst (require sample_deps ''/app/logo.png'' png broken_state) = Inl TypeError"
proof -
  have root: "options_project_path tracked_state = Some ''/app''"
    and broken_root: "options_project_path broken_state = Some ''/app''"
    by (simp_all add: tracked_state_eval broken_state_def sample_state_eval)
  have nonempty: "''/app'' \<noteq> []"
    by simp
  have included: "includes_path (normalize_asset_path sample_deps p ''/app'') png"
    and not_excluded: "\<not> excludes (normalize_asset_path sample_deps p ''/app'') png" for p
    by (simp_all add: includes_path_def excludes_def png_def)
  have dev: "truthy (options_development tracked_state)"
    and broken_dev: "truthy (options_development broken_state)"
    by (simp_all add: tracked_state_eval broken_state_def sample_state_eval)
  have throws: "fst (require sample_deps ''/app/logo.png'' png broken_state) = Inl TypeError"
    by (simp add: broken_state_def sample_state_eval require_def Let_def log_call_def
          sample_deps_def includes_path_def excludes_def png_def asset_source_def assets_def
          existsSync_def node_require_def json_file_def)
  have before: "cached_assets tracked_state = [''/app/logo.png'']"
    and broken_before: "cached_assets broken_state = []"
    by (simp_all add: tracked_state_eval broken_state_def sample_state_eval)
  have policy: "includes_path ''other.png'' png \<and> \<not> excludes ''other.png'' png"
    by (simp add: includes_path_def excludes_def png_def)
  note tracked =
    development_tracks_before_lookup [OF root nonempty included not_excluded dev,
      of "''/app/other.png''", THEN conjunct2, unfolded before]
  note broken_tracked =
    development_tracks_before_lookup [OF broken_root nonempty included not_excluded broken_dev,
      of "''/app/logo.png''", THEN conjunct2, unfolded broken_before]
  from root dev throws policy tracked broken_tracked show ?thesis
    by simp
qed

section \<open>Waiting for the manifest\<close>

lemma wait_for_first:
  assumes "\<forall>k<n. \<not> condition (now + interval * k)"
    and "condition (now + interval * n)"
    and "n \<le> timers"
  shows "wait_for timers path condition now =
     Some (concat (map (\<lambda>k. negative_check path (now + interval * k)) [0..<n])
           @ [(now + interval * n, Condition True), (now + interval * n, Proceed)])"
  using assms
proof (induction n arbitrary: timers now)
  case 0
  then show ?case by (cases timers) simp_all
next
  case (Suc n)
  from Suc.prems(3) obtain rest where timers: "timers = Suc rest" and rest: "n \<le> rest"
    by (cases timers) simp_all
  from Suc.prems(1) [rule_format, of 0] have negative: "\<not> condition now"
    by simp
  have later: "\<forall>k<n. \<not> condition (now + interval + interval * k)"
  proof (intro allI impI)
    fix k assume "k < n"
    with Suc.prems(1) [rule_format, of "Suc k"]
    show "\<not> condition (now + interval + interval * k)"
      by (simp add: add.assoc)
  qed
  have found: "condition (now + interval + interval * n)"
    using Suc.prems(2) by (simp add: add.assoc)
  have shift: "map (\<lambda>k. negative_check path (now + interval * k)) [0..<Suc n] =
      negative_check path now
        # map (\<lambda>k. negative_check path (now + interval + interval * k)) [0..<n]"
    by (simp only: map_upt_Suc) (simp add: add.assoc)
  have "wait_for rest path condition (now + interval) =
     Some (concat (map (\<lambda>k. negative_check path (now + interval + interval * k)) [0..<n])
           @ [(now + interval + interval * n, Condition True),
              (now + interval + interval * n, Proceed)])"
    by (rule Suc.IH [OF later found rest])
  with negative timers show ?case
    by (simp only: shift) (simp add: add.assoc)
qed

lemma wait_for_out_of_timers:
  "\<forall>k\<le>timers. \<not> condition (now + interval * k) \<Longrightarrow>
     wait_for timers path condition now = None"
proof (induction timers arbitrary: now)
  case 0
  then show ?case by simp
next
  case (Suc timers)
  have "\<forall>k\<le>timers. \<not> condition (now + interval + interval * k)"
  proof (intro allI impI)
    fix k assume "k \<le> timers"
    with Suc.prems [rule_format, of "Suc k"]
    show "\<not> condition (now + interval + interval * k)"
      by (simp add: add.assoc)
  qed
  then have "wait_for timers path condition (now + interval) = None"
    by (rule Suc.IH)
  moreover from Suc.prems [rule_format, of 0] have "\<not> condition now"
    by simp
  ultimately show ?case by simp
qed

lemma proceed_called_once:
  "filter (\<lambda>e. snd e = Proceed)
     (concat (map (\<lambda>k. [(f k, Condition False), (f k, Logged Log_debug m),
                          (f k, Logged Log_info m'), (f k, Set_timeout d)]) ks)
      @ [(t, Condition True), (t, Proceed)])
   = [(t, Proceed)]"
  by (induction ks) simp_all

lemma timers_set:
  "filter (\<lambda>e. case snd e of Set_timeout delay \<Rightarrow> True | _ \<Rightarrow> False)
     (concat (map (\<lambda>k. [(f k, Condition False), (f k, Logged Log_debug m),
                          (f k, Logged Log_info m'), (f k, Set_timeout d)]) ks)
      @ [(t, Condition True), (t, Proceed)])
   = map (\<lambda>k. (f k, Set_timeout d)) ks"
  by (induction ks) simp_all

lemma conditions_checked:
  "filter (\<lambda>e. case snd e of Condition met \<Rightarrow> True | _ \<Rightarrow> False)
     (concat (map (\<lambda>k. [(f k, Condition False), (f k, Logged Log_debug m),
                          (f k, Logged Log_info m'), (f k, Set_timeout d)]) ks)
      @ [(t, Condition True), (t, Proceed)])
   = map (\<lambda>k. (f k, Condition False)) ks @ [(t, Condition True)]"
  by (induction ks) simp_all

lemma checks_needed_covers: "(d::nat) \<le> 300 * ((d + 299) div 300)"
proof -
  have "d + 299 = 300 * ((d + 299) div 300) + (d + 299) mod 300"
    by simp
  moreover have "(d + 299) mod 300 < 300"
    by simp
  ultimately show ?thesis
    by linarith
qed

lemma checks_needed_least: "Suc k \<le> (d + 299) div 300 \<Longrightarrow> 300 * k < (d::nat)"
proof -
  assume "Suc k \<le> (d + 299) div 300"
  then have "300 * Suc k \<le> 300 * ((d + 299) div 300)"
    by simp
  also have "\<dots> \<le> d + 299"
    by simp
  finally show ?thesis
    by simp
qed

text \<open>
  C4. Let the manifest be written at time \<open>created\<close> and stay. \<^verbatim>\<open>wait_for_assets\<close>
  called at time \<open>now\<close> checks at \<open>now\<close>, \<open>now + 300\<close>, \<open>now + 600\<close>, ...: each check that
  finds no file logs two lines and sets one timer of 300 ms, no other timer is ever set,
  and the next check runs 300 ms later, when that timer fires, so no two checks are
  pending at once. The check number \<open>n\<close>, the first one at or after \<open>created\<close>, calls
  \<^verbatim>\<open>done\<close>, and nothing follows it: the callback runs exactly once, and never before the
  file exists. It takes \<open>n\<close> timers to get there.
\<close>

theorem wait_for_assets_calls_back_once:
  assumes "webpack_assets_path s = Some path"
    and "\<forall>t. exists_at t path \<longleftrightarrow> created \<le> t"
    and "n = (created - now + 299) div 300"
    and "n \<le> timers"
  shows "wait_for_assets timers exists_at now s =
        (Some (concat (map (\<lambda>k.
                  [(now + 300 * k, Condition False),
                   (now + 300 * k, Logged Log_debug (''('' @ path @ '' not found)'')),
                   (now + 300 * k, Logged Log_info ''(waiting for the first Webpack build to finish)''),
                   (now + 300 * k, Set_timeout 300)]) [0..<n])
               @ [(now + 300 * n, Condition True), (now + 300 * n, Proceed)]),
         s)
     \<and> (\<forall>events. fst (wait_for_assets timers exists_at now s) = Some events \<longrightarrow>
          filter (\<lambda>e. snd e = Proceed) events = [(now + 300 * n, Proceed)]
          \<and> filter (\<lambda>e. case snd e of Set_timeout delay \<Rightarrow> True | _ \<Rightarrow> False) events
              = map (\<lambda>k. (now + 300 * k, Set_timeout 300)) [0..<n]
          \<and> filter (\<lambda>e. case snd e of Condition met \<Rightarrow> True | _ \<Rightarrow> False) events
              = map (\<lambda>k. (now + 300 * k, Condition False)) [0..<n]
                  @ [(now + 300 * n, Condition True)])
     \<and> created \<le> now + 300 * n
     \<and> (\<forall>k<n. now + 300 * k < created)"
proof -
  have covers: "created \<le> now + 300 * n"
    using checks_needed_covers [of "created - now"] assms(3) by simp
  have least: "now + 300 * k < created" if "k < n" for k
    using checks_needed_least [of k "created - now"] that assms(3) by simp
  have "wait_for timers (Some path) (\<lambda>t. exists_at t path) now =
     Some (concat (map (\<lambda>k. negative_check (Some path) (now + interval * k)) [0..<n])
           @ [(now + interval * n, Condition True), (now + interval * n, Proceed)])"
  proof (rule wait_for_first)
    show "\<forall>k<n. \<not> exists_at (now + interval * k) path"
      using least assms(2) by (simp add: interval_def not_le)
    show "exists_at (now + interval * n) path"
      using covers assms(2) by (simp add: interval_def)
    show "n \<le> timers"
      by (rule assms(4))
  qed
  then have run: "wait_for_assets timers exists_at now s =
        (Some (concat (map (\<lambda>k.
                  [(now + 300 * k, Condition False),
                   (now + 300 * k, Logged Log_debug (''('' @ path @ '' not found)'')),
                   (now + 300 * k, Logged Log_info ''(waiting for the first Webpack build to finish)''),
                   (now + 300 * k, Set_timeout 300)]) [0..<n])
               @ [(now + 300 * n, Condition True), (now + 300 * n, Proceed)]),
         s)"
    using assms(1) by (simp add: wait_for_assets_def interval_def negative_check_def)
  have counts: "\<forall>events. fst (wait_for_assets timers exists_at now s) = Some events \<longrightarrow>
          filter (\<lambda>e. snd e = Proceed) events = [(now + 300 * n, Proceed)]
          \<and> filter (\<lambda>e. case snd e of Set_timeout delay \<Rightarrow> True | _ \<Rightarrow> False) events
              = map (\<lambda>k. (now + 300 * k, Set_timeout 300)) [0..<n]
          \<and> filter (\<lambda>e. case snd e of Condition met \<Rightarrow> True | _ \<Rightarrow> False) events
              = map (\<lambda>k. (now + 300 * k, Condition False)) [0..<n]
                  @ [(now + 300 * n, Condition True)]"
    unfolding run fst_conv
    using proceed_called_once [of "\<lambda>k. now + 300 * k" _ _ 300 "[0..<n]" "now + 300 * n"]
      timers_set [of "\<lambda>k. now + 300 * k" _ _ 300 "[0..<n]" "now + 300 * n"]
      conditions_checked [of "\<lambda>k. now + 300 * k" _ _ 300 "[0..<n]" "now + 300 * n"]
    by blast
  from run counts covers least show ?thesis
    by blast
qed

theorem wait_for_assets_calls_back_once_witness:
  "webpack_assets_path (sample_state (JBoolean True)) = Some ''/app/webpack-assets.json''
   \<and> (\<forall>t. (700 \<le> t) \<longleftrightarrow> (700::nat) \<le> t)
   \<and> (3::nat) = (700 - 0 + 299) div 300 \<and> (3::nat) \<le> 5
   \<and> fst (wait_for_assets 5 (\<lambda>t p. 700 \<le> t) 0 (sample_state (JBoolean True))) =
       Some [(0, Condition False),
             (0, Logged Log_debug ''(/app/webpack-assets.json not found)''),
             (0, Logged Log_info ''(waiting for the first Webpack build to finish)''),
             (0, Set_timeout 300),
             (300, Condition False),
             (300, Logged Log_debug ''(/app/webpack-assets.json not found)''),
             (300, Logged Log_info ''(waiting for the first Webpack build to finish)''),
             (300, Set_timeout 300),
             (600, Condition False),
             (600, Logged Log_debug ''(/app/webpack-assets.json not found)''),
             (600, Logged Log_info ''(waiting for the first Webpack build to finish)''),
             (600, Set_timeout 300),
             (900, Condition True),
             (900, Proceed)]
   \<and> (700::nat) \<le> 900"
proof -
  have path: "webpack_assets_path (sample_state (JBoolean True)) = Some ''/app/webpack-assets.json''"
    by (simp add: sample_state_eval)
  have created: "\<forall>t. (\<lambda>t p. (700::nat) \<le> t) t ''/app/webpack-assets.json'' \<longleftrightarrow> 700 \<le> t"
    by simp
  have checks: "(3::nat) = (700 - 0 + 299) div 300"
    by simp
  have timers: "(3::nat) \<le> 5"
    by simp
  have upt: "[0..<3] = [0, 1, 2::nat]"
    by (simp add: upt_rec)
  show ?thesis
    using path wait_for_assets_calls_back_once [OF path created checks timers, THEN conjunct1]
    by (simp add: upt)
qed

lemma txt_manifest_state_eval:
  "webpack_assets_path txt_manifest_state = Some ''/app/webpack-assets.txt''"
  "options_project_path txt_manifest_state = Some ''/app''"
  by (simp_all add: txt_manifest_state_def sample_deps_def constructor_def server_def
        wait_for_assets_def log_call_def Let_def register_def register_extension_def mount_def
        txt_files_def)

lemma aliased_state_eval:
  "hooks aliased_state = [2, 3]"
  "alias_hook aliased_state = Some 1"
  "mounted aliased_state =
     [(0, Global_resolver ''coffee''), (1, Global_resolver ''aliasing''),
      (2, Extension_resolver ''png'' png), (3, Extension_resolver ''css'' css)]"
  by (simp_all add: aliased_state_def sample_deps_def constructor_def server_def
        wait_for_assets_def log_call_def Let_def enable_aliasing_def mount_def register_def
        register_extension_def png_def css_def)

section \<open>The hook of an extension\<close>

text \<open>
  C6, amended. The hook mounted for the extension \<^verbatim>\<open>json\<close> declines the path that is
  \<^verbatim>\<open>webpack_assets_path\<close>: it returns \<^verbatim>\<open>undefined\<close> and changes nothing. In every other
  case, another path or the hook of another extension, the hook is \<^verbatim>\<open>this.require\<close> of
  the path: the guard names \<^verbatim>\<open>json\<close>, not the extension of the manifest file.
\<close>

theorem json_hook_declines_manifest:
  "(extension = ''json'' \<and> Some path = webpack_assets_path s \<longrightarrow>
      extension_hook d extension description path s = (Inr None, s))
   \<and> (extension \<noteq> ''json'' \<or> Some path \<noteq> webpack_assets_path s \<longrightarrow>
        extension_hook d extension description path s = require d path description s)"
  by (simp add: extension_hook_def)

theorem json_hook_declines_manifest_witness:
  "extension_hook sample_deps ''json'' json_files ''/app/webpack-assets.json'' (sample_state (JBoolean False))
     = (Inr None, sample_state (JBoolean False))
   \<and> extension_hook sample_deps ''json'' json_files ''/app/data.json'' (sample_state (JBoolean False))
     = require sample_deps ''/app/data.json'' json_files (sample_state (JBoolean False))
   \<and> extension_hook sample_deps ''txt'' txt_files ''/app/webpack-assets.txt'' txt_manifest_state
     = require sample_deps ''/app/webpack-assets.txt'' txt_files txt_manifest_state"
proof -
  have manifest: "webpack_assets_path (sample_state (JBoolean False)) = Some ''/app/webpack-assets.json''"
    by (simp add: sample_state_eval)
  show ?thesis
    using manifest
      json_hook_declines_manifest [of "''json''" "''/app/webpack-assets.json''"
        "sample_state (JBoolean False)" sample_deps json_files]
      json_hook_declines_manifest [of "''json''" "''/app/data.json''"
        "sample_state (JBoolean False)" sample_deps json_files]
      json_hook_declines_manifest [of "''txt''" "''/app/webpack-assets.txt''"
        txt_manifest_state sample_deps txt_files]
    by simp
qed

text \<open>
  C6 as stated fails for a manifest file that is not named \<^verbatim>\<open>*.json\<close>: with the manifest
  at \<^verbatim>\<open>/app/webpack-assets.txt\<close> and an asset type for \<^verbatim>\<open>txt\<close>, the hook of \<^verbatim>\<open>txt\<close> has
  the manifest's own extension and is asked for the manifest's path, and does not decline.
\<close>

theorem manifest_extension_counterexample:
  "spec_declines_manifest ''txt'' ''/app/webpack-assets.txt'' txt_manifest_state
   \<and> fst (extension_hook sample_deps ''txt'' txt_files ''/app/webpack-assets.txt'' txt_manifest_state)
       \<noteq> Inr None"
proof -
  have "spec_declines_manifest ''txt'' ''/app/webpack-assets.txt'' txt_manifest_state"
    by (simp add: spec_declines_manifest_def has_extension_def txt_manifest_state_eval)
  moreover have
    "fst (require sample_deps ''/app/webpack-assets.txt'' txt_files txt_manifest_state) \<noteq> Inr None"
    by (simp add: require_declines [OF txt_manifest_state_eval(2)] includes_path_def
          excludes_def txt_files_def)
  ultimately show ?thesis
    by (simp add: extension_hook_def)
qed

section \<open>Unmounting\<close>

lemma filter_handles:
  "filter (\<lambda>entry. fst entry \<notin> set hs) (filter (\<lambda>entry. fst entry \<noteq> h) xs)
     = filter (\<lambda>entry. fst entry \<notin> set (h # hs)) xs"
  by (induction xs) auto

lemma filter_alias_handle:
  "filter (\<lambda>entry. fst entry \<noteq> handle) (filter (\<lambda>entry. fst entry \<notin> H) xs)
     = filter (\<lambda>entry. fst entry \<notin> H \<and> fst entry \<noteq> handle) xs"
  by (induction xs) auto

lemma fold_unmount:
  "fold unmount hs s = s\<lparr>mounted := filter (\<lambda>entry. fst entry \<notin> set hs) (mounted s)\<rparr>"
proof (induction hs arbitrary: s)
  case Nil
  show ?case by simp
next
  case (Cons h hs)
  note twice = filter_handles [of hs h "mounted s"]
  have "fold unmount (h # hs) s = fold unmount hs (unmount h s)"
    by simp
  also have "\<dots> = (unmount h s)\<lparr>mounted :=
      filter (\<lambda>entry. fst entry \<notin> set hs) (mounted (unmount h s))\<rparr>"
    by (rule Cons.IH)
  also have "\<dots> = s\<lparr>mounted := filter (\<lambda>entry. fst entry \<notin> set (h # hs)) (mounted s)\<rparr>"
    unfolding unmount_def using twice by simp
  finally show ?case .
qed

lemma undo_eq:
  "undo s =
     s\<lparr>mounted :=
         filter (\<lambda>entry. fst entry \<notin> set (hooks s) \<and> Some (fst entry) \<noteq> alias_hook s)
           (mounted s)\<rparr>"
proof (cases "alias_hook s")
  case None
  then show ?thesis
    by (simp add: undo_def fold_unmount)
next
  case (Some handle)
  note filter_alias_handle [of handle "set (hooks s)" "mounted s"]
  with Some show ?thesis
    by (simp add: undo_def fold_unmount unmount_def)
qed

text \<open>
  C9. \<^verbatim>\<open>undo()\<close> unmounts every hook the instance holds a handle of: the hooks of
  \<^verbatim>\<open>this.hooks\<close>, one per registered extension, and \<^verbatim>\<open>this.alias_hook\<close> if it is
  set. None of them is mounted afterwards, the other mounted hooks stay, and the fields of
  the instance are as before. A second call unmounts the same handles again, which changes
  nothing; \<^verbatim>\<open>undo\<close> has no throw of its own.
\<close>

theorem undo_unmounts_and_is_idempotent:
  "mounted (undo s) =
     filter (\<lambda>entry. fst entry \<notin> set (hooks s) \<and> Some (fst entry) \<noteq> alias_hook s) (mounted s)
   \<and> (\<forall>handle. handle \<in> set (hooks s) \<or> alias_hook s = Some handle \<longrightarrow>
         handle \<notin> fst ` set (mounted (undo s)))
   \<and> hooks (undo s) = hooks s \<and> alias_hook (undo s) = alias_hook s
   \<and> undo (undo s) = undo s"
proof -
  have registry: "mounted (undo s) =
     filter (\<lambda>entry. fst entry \<notin> set (hooks s) \<and> Some (fst entry) \<noteq> alias_hook s) (mounted s)"
    by (subst undo_eq) simp
  have gone: "\<forall>handle. handle \<in> set (hooks s) \<or> alias_hook s = Some handle \<longrightarrow>
         handle \<notin> fst ` set (mounted (undo s))"
    unfolding registry by auto
  have fields: "hooks (undo s) = hooks s \<and> alias_hook (undo s) = alias_hook s"
    by (subst (1 2) undo_eq) simp
  have "undo (undo s) =
      (undo s)\<lparr>mounted :=
        filter (\<lambda>entry. fst entry \<notin> set (hooks (undo s))
                  \<and> Some (fst entry) \<noteq> alias_hook (undo s))
          (mounted (undo s))\<rparr>"
    by (rule undo_eq)
  also have "\<dots> = (undo s)\<lparr>mounted := mounted (undo s)\<rparr>"
    by (simp add: fields) (simp add: registry)
  also have "\<dots> = undo s"
    by simp
  finally have again: "undo (undo s) = undo s" .
  from registry gone fields again show ?thesis
    by blast
qed

theorem undo_unmounts_and_is_idempotent_witness:
  "mounted aliased_state =
     [(0, Global_resolver ''coffee''), (1, Global_resolver ''aliasing''),
      (2, Extension_resolver ''png'' png), (3, Extension_resolver ''css'' css)]
   \<and> mounted (undo aliased_state) = [(0, Global_resolver ''coffee'')]
   \<and> undo (undo aliased_state) = undo aliased_state"
  using undo_unmounts_and_is_idempotent [of aliased_state]
  by (simp add: aliased_state_eval)

section \<open>Who changes the tracked assets\<close>

lemma mount_cached_assets: "cached_assets (snd (mount r s)) = cached_assets s"
  by (simp add: mount_def)

lemma enable_aliasing_cached_assets: "cached_assets (enable_aliasing s) = cached_assets s"
  by (simp add: enable_aliasing_def mount_def)

lemma development_cached_assets: "cached_assets (development flag s) = cached_assets s"
  by (simp add: development_def Let_def log_fields)

lemma register_extension_cached_assets:
  "cached_assets (register_extension extension description s) = cached_assets s"
  by (simp add: register_extension_def Let_def mount_def log_fields)

lemma register_extensions_cached_assets:
  "cached_assets (fold (\<lambda>extension. register_extension extension description) exts s)
     = cached_assets s"
  by (induction exts arbitrary: s) (simp_all add: register_extension_cached_assets)

lemma register_types_cached_assets:
  "cached_assets
     (fold (\<lambda>asset_type t.
              fold (\<lambda>extension. register_extension extension (snd asset_type))
                (extensions (snd asset_type)) t) types s)
     = cached_assets s"
  by (induction types arbitrary: s) (simp_all add: register_extensions_cached_assets)

lemma register_cached_assets: "cached_assets (register s) = cached_assets s"
  by (simp add: register_def Let_def register_types_cached_assets log_fields)

lemma server_cached_assets:
  "cached_assets (snd (server d project_path timers exists_at now s)) = cached_assets s"
  by (simp add: server_def Let_def wait_for_assets_def register_cached_assets)

lemma undo_cached_assets: "cached_assets (undo s) = cached_assets s"
  by (subst undo_eq) simp

lemma aliasing_hook_cached_assets: "cached_assets (snd (aliasing_hook d path s)) = cached_assets s"
  by (simp add: aliasing_hook_def split: prod.split)

lemma refresh_cached_assets:
  "cached_assets (snd (refresh s)) = cached_assets s
   \<or> (truthy (options_development s) \<and> cached_assets (snd (refresh s)) = [])"
  by (simp add: refresh_def Let_def)

lemma require_cached_assets:
  "cached_assets (snd (require d path description s)) = cached_assets s
   \<or> (truthy (options_development s)
       \<and> cached_assets (snd (require d path description s)) = cached_assets s @ [path])"
proof (cases "options_project_path s")
  case None
  then show ?thesis
    by (simp add: require_def Let_def log_fields)
next
  case (Some root)
  show ?thesis
  proof (cases "root \<noteq> []
      \<and> includes_path (normalize_asset_path d path root) description
      \<and> \<not> excludes (normalize_asset_path d path root) description")
    case True
    then have "require d path description s =
     (let s1 = log_call Log_debug (''require() called for '' @ path) s;
          s2 = (if truthy (options_development s)
                then s1\<lparr>cached_assets := cached_assets s @ [path]\<rparr> else s1)
      in case asset_source (webpack_path d (normalize_asset_path d path root)) s2 of
           (Inl e, s3) \<Rightarrow> (Inl e, s3)
         | (Inr source, s3) \<Rightarrow> (Inr (Some (to_javascript_module_source source)), s3))"
      using Some by (intro require_passes) simp_all
    then have "snd (require d path description s) =
       snd (asset_source (webpack_path d (normalize_asset_path d path root))
             (if truthy (options_development s)
              then (log_call Log_debug (''require() called for '' @ path) s)
                     \<lparr>cached_assets := cached_assets s @ [path]\<rparr>
              else log_call Log_debug (''require() called for '' @ path) s))"
      by (simp add: Let_def split: prod.split sum.split)
    then show ?thesis
      by (simp add: asset_source_cached_assets log_fields)
  next
    case False
    with Some show ?thesis
      by (auto simp add: require_def Let_def log_fields)
  qed
qed

lemma extension_hook_cached_assets:
  "cached_assets (snd (extension_hook d extension description path s)) = cached_assets s
   \<or> (truthy (options_development s)
       \<and> cached_assets (snd (extension_hook d extension description path s))
           = cached_assets s @ [path])"
  using require_cached_assets [of d path description s]
  by (simp add: extension_hook_def)

lemma require_declined_cached_assets:
  assumes "fst (require d path description s) = Inr None"
  shows "cached_assets (snd (require d path description s)) = cached_assets s"
proof (cases "options_project_path s")
  case None
  then show ?thesis
    by (simp add: require_def Let_def log_fields)
next
  case (Some root)
  show ?thesis
  proof (cases "root = []")
    case True
    with Some show ?thesis
      by (simp add: require_def Let_def log_fields)
  next
    case False
    with Some assms have "\<not> includes_path (normalize_asset_path d path root) description
        \<or> excludes (normalize_asset_path d path root) description"
      by (simp add: require_declines)
    with Some False show ?thesis
      by (auto simp add: require_def Let_def log_fields)
  qed
qed

lemma require_tracks_intercepted:
  "cached_assets (snd (require d path description s)) = cached_assets s
   \<or> (truthy (options_development s)
       \<and> fst (require d path description s) \<noteq> Inr None
       \<and> (\<exists>root. options_project_path s = Some root \<and> root \<noteq> []
             \<and> includes_path (normalize_asset_path d path root) description
             \<and> \<not> excludes (normalize_asset_path d path root) description)
       \<and> cached_assets (snd (require d path description s)) = cached_assets s @ [path])"
proof -
  consider
    (same) "cached_assets (snd (require d path description s)) = cached_assets s"
    | (grows) "truthy (options_development s)"
        "cached_assets (snd (require d path description s)) = cached_assets s @ [path]"
    using require_cached_assets [of d path description s] by blast
  then show ?thesis
  proof cases
    case same
    then show ?thesis by simp
  next
    case grows
    from grows(2) have changed:
      "cached_assets (snd (require d path description s)) \<noteq> cached_assets s"
      by simp
    with require_declined_cached_assets [of d path description s]
    have intercepted: "fst (require d path description s) \<noteq> Inr None"
      by blast
    have "\<exists>root. options_project_path s = Some root \<and> root \<noteq> []"
    proof (rule ccontr)
      assume "\<not> (\<exists>root. options_project_path s = Some root \<and> root \<noteq> [])"
      then have "options_project_path s = None \<or> options_project_path s = Some []"
        by (cases "options_project_path s") auto
      then have "cached_assets (snd (require d path description s)) = cached_assets s"
        by (auto simp add: require_def Let_def log_fields)
      with changed show False
        by simp
    qed
    then obtain root where root: "options_project_path s = Some root" "root \<noteq> []"
      by blast
    from intercepted have
      "includes_path (normalize_asset_path d path root) description
       \<and> \<not> excludes (normalize_asset_path d path root) description"
      by (simp add: require_declines [OF root])
    with grows intercepted root show ?thesis
      by blast
  qed
qed

lemma extension_hook_tracks_intercepted:
  "cached_assets (snd (extension_hook d extension description path s)) = cached_assets s
   \<or> (truthy (options_development s)
       \<and> fst (extension_hook d extension description path s) \<noteq> Inr None
       \<and> (\<exists>root. options_project_path s = Some root \<and> root \<noteq> []
             \<and> includes_path (normalize_asset_path d path root) description
             \<and> \<not> excludes (normalize_asset_path d path root) description)
       \<and> cached_assets (snd (extension_hook d extension description path s))
           = cached_assets s @ [path])"
  using require_tracks_intercepted [of d path description s]
  by (simp add: extension_hook_def)

lemma extension_hook_declined_cached_assets:
  "fst (extension_hook d extension description path s) = Inr None \<Longrightarrow>
     cached_assets (snd (extension_hook d extension description path s)) = cached_assets s"
  using require_declined_cached_assets [of d path description s]
  by (simp add: extension_hook_def split: if_splits)

text \<open>
  C7. Whatever is called on an instance, in whatever state, \<^verbatim>\<open>cached_assets\<close> afterwards
  is what it was, or it has one more entry, or it is empty. It gets an entry only from
  \<^verbatim>\<open>require\<close>, called directly or by the hook of an extension, only if development
  mode is on when that call starts, and only if the load is intercepted: the project path
  is set, the path passes the include and exclude lists, and the call does not return
  \<^verbatim>\<open>undefined\<close>; the entry is the path of the load. A load that is declined leaves the
  list as it was, and so does every call made in production mode. The list loses entries
  only in \<^verbatim>\<open>refresh\<close>, in development mode, which leaves none.
\<close>

theorem cached_assets_change_only_by_tracking_and_refresh:
  "(cached_assets (perform d c s) = cached_assets s
    \<or> (truthy (options_development s)
        \<and> (\<exists>path description.
              (c = Require path description
                 \<and> fst (require d path description s) \<noteq> Inr None
               \<or> (\<exists>extension. c = Extension_hook_fired extension description path
                     \<and> fst (extension_hook d extension description path s) \<noteq> Inr None))
              \<and> (\<exists>root. options_project_path s = Some root \<and> root \<noteq> []
                    \<and> includes_path (normalize_asset_path d path root) description
                    \<and> \<not> excludes (normalize_asset_path d path root) description)
              \<and> cached_assets (perform d c s) = cached_assets s @ [path]))
    \<or> (truthy (options_development s) \<and> c = Refresh \<and> cached_assets (perform d c s) = []))
   \<and> (\<forall>path description.
         c = Require path description \<and> fst (require d path description s) = Inr None \<longrightarrow>
         cached_assets (perform d c s) = cached_assets s)
   \<and> (\<forall>extension description path.
         c = Extension_hook_fired extension description path
         \<and> fst (extension_hook d extension description path s) = Inr None \<longrightarrow>
         cached_assets (perform d c s) = cached_assets s)
   \<and> (\<not> truthy (options_development s) \<longrightarrow> cached_assets (perform d c s) = cached_assets s)"
proof -
  have steps: "cached_assets (perform d c s) = cached_assets s
    \<or> (truthy (options_development s)
        \<and> (\<exists>path description.
              (c = Require path description
                 \<and> fst (require d path description s) \<noteq> Inr None
               \<or> (\<exists>extension. c = Extension_hook_fired extension description path
                     \<and> fst (extension_hook d extension description path s) \<noteq> Inr None))
              \<and> (\<exists>root. options_project_path s = Some root \<and> root \<noteq> []
                    \<and> includes_path (normalize_asset_path d path root) description
                    \<and> \<not> excludes (normalize_asset_path d path root) description)
              \<and> cached_assets (perform d c s) = cached_assets s @ [path]))
    \<or> (truthy (options_development s) \<and> c = Refresh \<and> cached_assets (perform d c s) = [])"
  proof (cases c)
    case (Require path description)
    with require_tracks_intercepted [of d path description s] show ?thesis
      by auto
  next
    case (Extension_hook_fired extension description path)
    with extension_hook_tracks_intercepted [of d extension description path s] show ?thesis
      by auto
  next
    case Refresh
    with refresh_cached_assets [of s] show ?thesis
      by auto
  qed (simp_all add: development_cached_assets assets_cached_assets
        enable_aliasing_cached_assets server_cached_assets register_cached_assets
        register_extension_cached_assets asset_source_cached_assets undo_cached_assets
        wait_for_assets_def aliasing_hook_cached_assets)
  have declined: "\<forall>path description.
         c = Require path description \<and> fst (require d path description s) = Inr None \<longrightarrow>
         cached_assets (perform d c s) = cached_assets s"
    by (auto simp add: require_declined_cached_assets)
  have hook_declined: "\<forall>extension description path.
         c = Extension_hook_fired extension description path
         \<and> fst (extension_hook d extension description path s) = Inr None \<longrightarrow>
         cached_assets (perform d c s) = cached_assets s"
    by (auto simp add: extension_hook_declined_cached_assets)
  have production: "\<not> truthy (options_development s) \<longrightarrow>
      cached_assets (perform d c s) = cached_assets s"
    using steps by blast
  from steps declined hook_declined production show ?thesis
    by blast
qed

theorem cached_assets_change_only_by_tracking_and_refresh_witness:
  "cached_assets (perform sample_deps (Require ''/app/logo.png'' png) (sample_state (JBoolean True)))
     = [''/app/logo.png'']
   \<and> fst (require sample_deps ''/app/logo.png'' empty_include (sample_state (JBoolean True)))
       = Inr None
   \<and> cached_assets (perform sample_deps (Require ''/app/logo.png'' empty_include)
        (sample_state (JBoolean True))) = []
   \<and> \<not> truthy (options_development (sample_state (JBoolean False)))
   \<and> cached_assets (perform sample_deps (Require ''/app/logo.png'' png) (sample_state (JBoolean False)))
     = []
   \<and> cached_assets (perform sample_deps (Development (JBoolean False)) loaded_state)
     = [''/app/logo.png'']
   \<and> \<not> truthy (options_development (development (JBoolean False) loaded_state))
   \<and> cached_assets (perform sample_deps Refresh (development (JBoolean False) loaded_state))
     = [''/app/logo.png'']
   \<and> cached_assets (perform sample_deps Undo loaded_state) = [''/app/logo.png'']
   \<and> cached_assets (perform sample_deps Refresh loaded_state) = []"
proof -
  have tracked: "cached_assets (perform sample_deps (Require ''/app/logo.png'' png)
      (sample_state (JBoolean True))) \<noteq> cached_assets (sample_state (JBoolean True))"
    using tracked_state_eval by (simp add: tracked_state_def sample_state_eval)
  have flushed: "cached_assets (perform sample_deps Refresh loaded_state)
      \<noteq> cached_assets loaded_state"
    by (simp add: refresh_def Let_def loaded_state_def tracked_state_eval)
  have declined:
    "fst (require sample_deps ''/app/logo.png'' empty_include (sample_state (JBoolean True)))
      = Inr None"
    by (simp add: empty_include_def sample_state_eval require_def Let_def log_call_def
          includes_path_def sample_deps_def)
  have before: "cached_assets (sample_state dev) = []"
    "cached_assets loaded_state = [''/app/logo.png'']"
    "cached_assets (development (JBoolean False) loaded_state) = [''/app/logo.png'']" for dev
    by (simp_all add: sample_state_eval loaded_state_def tracked_state_eval
          development_cached_assets)
  have off: "\<not> truthy (options_development (sample_state (JBoolean False)))"
    "\<not> truthy (options_development (development (JBoolean False) loaded_state))"
    by (simp_all add: sample_state_eval development_def exists_def log_call_def)
  note steps = cached_assets_change_only_by_tracking_and_refresh [THEN conjunct1]
  note unchanged_if_declined = cached_assets_change_only_by_tracking_and_refresh [THEN conjunct2, THEN conjunct1, rule_format]
  note unchanged_in_production =
    cached_assets_change_only_by_tracking_and_refresh [THEN conjunct2, THEN conjunct2, THEN conjunct2, rule_format]
  show ?thesis
    using tracked flushed declined off
      steps [of sample_deps "Require ''/app/logo.png'' png" "sample_state (JBoolean True)"]
      unchanged_if_declined [of "Require ''/app/logo.png'' empty_include" "''/app/logo.png''"
        empty_include sample_deps "sample_state (JBoolean True)"]
      unchanged_in_production [of "sample_state (JBoolean False)" sample_deps
        "Require ''/app/logo.png'' png"]
      steps [of sample_deps "Development (JBoolean False)" loaded_state]
      unchanged_in_production [of "development (JBoolean False) loaded_state" sample_deps Refresh]
      steps [of sample_deps Undo loaded_state]
      steps [of sample_deps Refresh loaded_state]
    unfolding before
    by auto
qed

end
